theory Spec2Isabelle
  imports Complex_Main "HOL-Library.Sublist" "HOL-Library.Word"
begin

section \<open>Flag codec (src/lib/regex-utils.ts)\<close>

text \<open>The \<open>RegexFlags\<close> object: six independent booleans.\<close>

record RegexFlags =
  global :: bool
  ignoreCase :: bool
  multiline :: bool
  dotAll :: bool
  unicode :: bool
  sticky :: bool

text \<open>\<open>flagsToString\<close>: the result starts empty and each set flag appends its letter,
  in the order of the six \<open>if\<close> statements.\<close>

definition flagsToString :: "RegexFlags \<Rightarrow> string" where
  "flagsToString flags =
     (if global flags then ''g'' else '''') @
     (if ignoreCase flags then ''i'' else '''') @
     (if multiline flags then ''m'' else '''') @
     (if dotAll flags then ''s'' else '''') @
     (if unicode flags then ''u'' else '''') @
     (if sticky flags then ''y'' else '''')"

text \<open>\<open>String.prototype.includes\<close> with a one-character needle: the character occurs
  somewhere in the string.\<close>

definition str_includes :: "string \<Rightarrow> char \<Rightarrow> bool" where
  "str_includes s c = (c \<in> set s)"

definition parseFlags :: "string \<Rightarrow> RegexFlags" where
  "parseFlags flagsString =
     \<lparr> global = str_includes flagsString CHR ''g'',
       ignoreCase = str_includes flagsString CHR ''i'',
       multiline = str_includes flagsString CHR ''m'',
       dotAll = str_includes flagsString CHR ''s'',
       unicode = str_includes flagsString CHR ''u'',
       sticky = str_includes flagsString CHR ''y'' \<rparr>"

section \<open>Match engine (the effect of the \<open>TestArea\<close> component)\<close>

text \<open>
  A \<open>PatternMatch\<close>, over the code units \<open>'u\<close> of the sample text (the field \<open>text\<close> is
  named \<open>matchText\<close> here). A capture group that did not participate is \<open>None\<close>.
\<close>

record 'u PatternMatch =
  matchText :: "'u list"
  startIndex :: nat
  endIndex :: nat
  groups :: "'u list option list"

text \<open>
  The array \<open>regex.exec\<close> returns: \<open>match[0]\<close>, \<open>match.index\<close> and \<open>match.slice(1)\<close>.
\<close>

record 'u RegExpExecArray =
  m0 :: "'u list"
  index :: nat
  captures :: "'u list option list"

text \<open>
  The matching primitive belongs to the host platform, so it is a parameter of the model.
  A regex object is given by what \<open>exec\<close> does: from the text and the current value of
  \<open>lastIndex\<close> it returns the match (or \<open>None\<close> for \<open>null\<close>) and the value it leaves in
  \<open>lastIndex\<close>. The constructor \<open>new RegExp(pattern, flags)\<close> throws (\<open>Inl\<close>, with the
  message of the error) or returns a regex object.
\<close>

type_synonym 'u regex = "'u list \<Rightarrow> nat \<Rightarrow> 'u RegExpExecArray option \<times> nat"

type_synonym 'u RegExpCtor = "string \<Rightarrow> string \<Rightarrow> string + 'u regex"

text \<open>\<open>validateRegex\<close> (src/lib/regex-utils.ts): \<open>None\<close> is \<open>null\<close>.\<close>

definition validateRegex :: "'u RegExpCtor \<Rightarrow> string \<Rightarrow> RegexFlags \<Rightarrow> string option" where
  "validateRegex ctor pattern flags =
     (if pattern = [] then None
      else (case ctor pattern (flagsToString flags) of
              Inl message \<Rightarrow> Some message
            | Inr _ \<Rightarrow> None))"

text \<open>The object pushed onto \<open>allMatches\<close> for one result of \<open>exec\<close>.\<close>

definition matchOf :: "'u RegExpExecArray \<Rightarrow> 'u PatternMatch" where
  "matchOf m =
     \<lparr> matchText = m0 m, startIndex = index m, endIndex = index m + length (m0 m),
       groups = captures m \<rparr>"

text \<open>
  The loop of the global branch: \<open>while ((match = regex.exec(sampleText)) !== null)\<close>.
  Each round pushes the match and, when \<open>match[0]\<close> is empty, increments the
  \<open>lastIndex\<close> that \<open>exec\<close> left. The loop may run forever: the result is then \<open>None\<close>.
\<close>

partial_function (option) globalLoop ::
  "'u regex \<Rightarrow> 'u list \<Rightarrow> nat \<Rightarrow> 'u PatternMatch list \<Rightarrow> 'u PatternMatch list option" where
  "globalLoop regex sampleText lastIndex allMatches =
     (case regex sampleText lastIndex of
        (None, _) \<Rightarrow> Some allMatches
      | (Some m, lastIndex') \<Rightarrow>
          globalLoop regex sampleText
            (if length (m0 m) = 0 then lastIndex' + 1 else lastIndex')
            (allMatches @ [matchOf m]))"

declare globalLoop.simps [code]

text \<open>The state of the component: \<open>matches\<close>, \<open>executionTime\<close>, \<open>isValid\<close>.\<close>

record 'u TestAreaState =
  matches :: "'u PatternMatch list"
  executionTime :: real
  isValid :: bool

definition initialTestArea :: "'u TestAreaState" where
  "initialTestArea = \<lparr> matches = [], executionTime = 0, isValid = True \<rparr>"

text \<open>
  The callback of the 300 ms timer, when it fires. \<open>startTime\<close> and \<open>endTime\<close> are the
  two readings of \<open>performance.now()\<close>. The constructor throwing is caught by the
  \<open>catch\<close> block. A fresh regex object has \<open>lastIndex = 0\<close>.
\<close>

definition timerCallback ::
  "'u RegExpCtor \<Rightarrow> real \<Rightarrow> real \<Rightarrow> string \<Rightarrow> RegexFlags \<Rightarrow> 'u list
     \<Rightarrow> 'u TestAreaState \<Rightarrow> 'u TestAreaState option" where
  "timerCallback ctor startTime endTime pattern flags sampleText st =
     (case ctor pattern (flagsToString flags) of
        Inl _ \<Rightarrow> Some (st\<lparr> isValid := False, matches := [] \<rparr>)
      | Inr regex \<Rightarrow>
          (if global flags then
             map_option
               (\<lambda>allMatches. st\<lparr> matches := allMatches, executionTime := endTime - startTime \<rparr>)
               (globalLoop regex sampleText 0 [])
           else
             (case fst (regex sampleText 0) of
                None \<Rightarrow> Some (st\<lparr> matches := [], executionTime := endTime - startTime \<rparr>)
              | Some m \<Rightarrow>
                  Some (st\<lparr> matches := [matchOf m], executionTime := endTime - startTime \<rparr>))))"

text \<open>
  The effect that runs when \<open>pattern\<close>, \<open>flags\<close> or \<open>sampleText\<close> change, followed by its
  timer callback (no newer input supersedes it). The second component counts the
  evaluations of \<open>new RegExp\<close>: every \<open>exec\<close> needs a regex object built by one of them.
  \<open>if (error)\<close> tests the truthiness of \<open>string | null\<close>: the empty message is falsy.
\<close>

definition runEffect ::
  "'u RegExpCtor \<Rightarrow> real \<Rightarrow> real \<Rightarrow> string \<Rightarrow> RegexFlags \<Rightarrow> 'u list
     \<Rightarrow> 'u TestAreaState \<Rightarrow> ('u TestAreaState \<times> nat) option" where
  "runEffect ctor startTime endTime pattern flags sampleText st =
     (if pattern = [] \<or> sampleText = [] then
        Some (st\<lparr> matches := [], executionTime := 0 \<rparr>, 0)
      else
        (case validateRegex ctor pattern flags of
           Some (c # message) \<Rightarrow> Some (st\<lparr> isValid := False, matches := [] \<rparr>, 1)
         | _ \<Rightarrow>
             map_option (\<lambda>st'. (st', 2))
               (timerCallback ctor startTime endTime pattern flags sampleText
                  (st\<lparr> isValid := True \<rparr>))))"

subsection \<open>The host's regex for the pattern \<open>x*\<close>\<close>

text \<open>
  JavaScript strings are sequences of 16-bit code units. What the host's \<open>exec\<close> does for
  the regex \<open>x*\<close> with the global flag, after ECMAScript's RegExpBuiltinExec: when
  \<open>lastIndex\<close> is beyond the end, the result is \<open>null\<close> and \<open>lastIndex\<close> becomes 0.
  Otherwise matching starts at the character that holds the code unit at \<open>lastIndex\<close>;
  with the \<open>u\<close> flag a character is a code point, so a \<open>lastIndex\<close> on the second half
  of a surrogate pair starts at the first half. \<open>x*\<close> matches there the longest run of
  \<open>x\<close> (possibly empty); the match is reported where it starts, and \<open>lastIndex\<close>
  becomes the end of the match.
\<close>

definition isLeadSurrogate :: "16 word \<Rightarrow> bool" where
  "isLeadSurrogate u = (0xD800 \<le> u \<and> u \<le> 0xDBFF)"

definition isTrailSurrogate :: "16 word \<Rightarrow> bool" where
  "isTrailSurrogate u = (0xDC00 \<le> u \<and> u \<le> 0xDFFF)"

definition inputIndex :: "bool \<Rightarrow> 16 word list \<Rightarrow> nat \<Rightarrow> nat" where
  "inputIndex fullUnicode S lastIndex =
     (if fullUnicode \<and> 0 < lastIndex \<and> lastIndex < length S
         \<and> isTrailSurrogate (S ! lastIndex) \<and> isLeadSurrogate (S ! (lastIndex - 1))
      then lastIndex - 1 else lastIndex)"

definition exec_xstar :: "bool \<Rightarrow> 16 word regex" where
  "exec_xstar fullUnicode S lastIndex =
     (if lastIndex > length S then (None, 0)
      else
        (let i = inputIndex fullUnicode S lastIndex;
             run = takeWhile (\<lambda>u. u = 0x78) (drop i S)
         in (Some \<lparr> m0 = run, index = i, captures = [] \<rparr>, i + length run)))"

text \<open>A constructor that knows this one pattern and rejects every other.\<close>

definition ctor_xstar :: "16 word RegExpCtor" where
  "ctor_xstar pattern flagsStr =
     (if pattern = ''x*'' then Inr (exec_xstar (str_includes flagsStr CHR ''u''))
      else Inl ''Invalid regular expression'')"

text \<open>
  Two flag sets of the user interface, and two sample texts in UTF-16: \<open>abc\<close>, and the
  one character U+1F600, whose code units are the surrogate pair D83D DE00.
\<close>

definition flags_g :: RegexFlags where
  "flags_g =
     \<lparr> global = True, ignoreCase = False, multiline = False, dotAll = False,
       unicode = False, sticky = False \<rparr>"

definition flags_gu :: RegexFlags where
  "flags_gu = flags_g\<lparr> unicode := True \<rparr>"

definition text_abc :: "16 word list" where
  "text_abc = [0x61, 0x62, 0x63]"

definition text_U1F600 :: "16 word list" where
  "text_U1F600 = [0xD83D, 0xDE00]"

text \<open>The empty match at position \<open>i\<close>, without groups.\<close>

definition emptyMatchAt :: "nat \<Rightarrow> 'u PatternMatch" where
  "emptyMatchAt i = \<lparr> matchText = [], startIndex = i, endIndex = i, groups = [] \<rparr>"

text \<open>
  The contract under which the loop is seen to end: \<open>exec\<close> returns a match only from a
  \<open>lastIndex\<close> within the text, never leaves \<open>lastIndex\<close> below where the search began,
  and leaves it beyond that after a non-empty match.
\<close>

definition progresses :: "'u regex \<Rightarrow> 'u list \<Rightarrow> bool" where
  "progresses regex S =
     (\<forall>li. case regex S li of
             (None, _) \<Rightarrow> True
           | (Some m, li') \<Rightarrow> li \<le> length S \<and> li \<le> li' \<and> (m0 m \<noteq> [] \<longrightarrow> li < li'))"

section \<open>Highlight renderer (\<open>renderHighlightedText\<close> of the \<open>TestArea\<close> component)\<close>

text \<open>The emitted \<open>span\<close> elements: plain text, or a match with the highlight classes.\<close>

datatype 'u span = Plain "'u list" | Highlight "'u list"

fun spanText :: "'u span \<Rightarrow> 'u list" where
  "spanText (Plain t) = t"
| "spanText (Highlight t) = t"

text \<open>
  \<open>String.prototype.substring(start, end)\<close> on indices that are natural numbers: both are
  clamped to the length and swapped when \<open>start > end\<close>. With one argument the end is
  the length.
\<close>

definition substring :: "'u list \<Rightarrow> nat \<Rightarrow> nat \<Rightarrow> 'u list" where
  "substring s a b =
     (let a' = min a (length s); b' = min b (length s);
          lo = min a' b'; hi = max a' b'
      in take (hi - lo) (drop lo s))"

definition substringFrom :: "'u list \<Rightarrow> nat \<Rightarrow> 'u list" where
  "substringFrom s a = substring s a (length s)"

text \<open>One round of \<open>matches.forEach\<close>: the state is \<open>elements\<close> and \<open>lastIndex\<close>.\<close>

definition renderStep ::
  "'u list \<Rightarrow> 'u span list \<times> nat \<Rightarrow> 'u PatternMatch \<Rightarrow> 'u span list \<times> nat" where
  "renderStep sampleText acc match =
     (case acc of (elements, lastIndex) \<Rightarrow>
        (elements
           @ (if startIndex match > lastIndex
              then [Plain (substring sampleText lastIndex (startIndex match))] else [])
           @ [Highlight (matchText match)],
         endIndex match))"

definition renderHighlightedText :: "'u list \<Rightarrow> 'u PatternMatch list \<Rightarrow> 'u span list" where
  "renderHighlightedText sampleText ms =
     (if sampleText = [] \<or> ms = [] then [Plain sampleText]
      else
        (case foldl (renderStep sampleText) ([], 0) ms of (elements, lastIndex) \<Rightarrow>
           elements
             @ (if lastIndex < length sampleText
                then [Plain (substringFrom sampleText lastIndex)] else [])))"

text \<open>
  The match lists the renderer is specified for, from position \<open>lo\<close> on: every match
  lies within the text, ends where or before the next one starts, and carries the slice
  of the text between its indices.
\<close>

fun validMatches :: "'u list \<Rightarrow> nat \<Rightarrow> 'u PatternMatch list \<Rightarrow> bool" where
  "validMatches s lo [] = True"
| "validMatches s lo (m # ms) =
     (lo \<le> startIndex m \<and> startIndex m \<le> endIndex m \<and> endIndex m \<le> length s
      \<and> matchText m = substring s (startIndex m) (endIndex m)
      \<and> validMatches s (endIndex m) ms)"

text \<open>
  The same in the words of the data model and of the renderer's contract: the invariant
  of a \<open>Match\<close> for a text, and a list in which each match ends where or before the next
  starts.
\<close>

definition matchInvariant :: "'u list \<Rightarrow> 'u PatternMatch \<Rightarrow> bool" where
  "matchInvariant s m =
     (startIndex m \<le> endIndex m \<and> endIndex m \<le> length s
      \<and> matchText m = substring s (startIndex m) (endIndex m))"

fun nonOverlapping :: "'u PatternMatch list \<Rightarrow> bool" where
  "nonOverlapping [] = True"
| "nonOverlapping [m] = True"
| "nonOverlapping (m # n # ms) = (endIndex m \<le> startIndex n \<and> nonOverlapping (n # ms))"

text \<open>The texts of the match spans of a rendering, in order.\<close>

fun highlights :: "'u span list \<Rightarrow> 'u list list" where
  "highlights [] = []"
| "highlights (Plain t # xs) = highlights xs"
| "highlights (Highlight t # xs) = t # highlights xs"

section \<open>Cursor-aware editor (\<open>RegexEditor\<close> inside \<open>App\<close>)\<close>

text \<open>
  \<open>pattern\<close> is the state of \<open>App\<close>, shown in the textarea; \<open>history\<close>, \<open>historyIndex\<close>
  and \<open>cursorPosition\<close> belong to \<open>RegexEditor\<close>. Reading an array out of range gives
  \<open>undefined\<close>, which is \<open>None\<close>; so the pattern is an optional string.
\<close>

record EditorState =
  pattern :: "string option"
  history :: "string list"
  historyIndex :: nat
  cursorPosition :: "(nat \<times> nat) option"

definition nth_opt :: "'a list \<Rightarrow> nat \<Rightarrow> 'a option" where
  "nth_opt xs i = (if i < length xs then Some (xs ! i) else None)"

text \<open>The first render: \<open>useState("")\<close> in \<open>App\<close>, \<open>useState([pattern])\<close> in the editor.\<close>

definition initialEditor :: EditorState where
  "initialEditor =
     \<lparr> pattern = Some [], history = [[]], historyIndex = 0, cursorPosition = None \<rparr>"

definition handlePatternChange :: "string \<Rightarrow> EditorState \<Rightarrow> EditorState" where
  "handlePatternChange v s =
     (if nth_opt (history s) (historyIndex s) \<noteq> Some v then
        (let newHistory = take (historyIndex s + 1) (history s) @ [v]
         in s\<lparr> pattern := Some v, history := newHistory,
               historyIndex := length newHistory - 1 \<rparr>)
      else s\<lparr> pattern := Some v \<rparr>)"

text \<open>\<open>handleInsert\<close>: \<open>pattern.length\<close> on \<open>undefined\<close> throws before any update.\<close>

definition handleInsert :: "string \<Rightarrow> EditorState \<Rightarrow> EditorState" where
  "handleInsert txt s =
     (case pattern s of
        None \<Rightarrow> s
      | Some currentValue \<Rightarrow>
          (let selStart =
                 (case cursorPosition s of Some (a, b) \<Rightarrow> a | None \<Rightarrow> length currentValue);
               selEnd =
                 (case cursorPosition s of Some (a, b) \<Rightarrow> b | None \<Rightarrow> length currentValue);
               newValue =
                 substring currentValue 0 selStart @ txt @ substringFrom currentValue selEnd;
               newCursorPos = selStart + length txt
           in (handlePatternChange newValue s)
                \<lparr> cursorPosition := Some (newCursorPos, newCursorPos) \<rparr>))"

definition handleUndo :: "EditorState \<Rightarrow> EditorState" where
  "handleUndo s =
     (if historyIndex s > 0 then
        (let newIndex = historyIndex s - 1
         in s\<lparr> historyIndex := newIndex, pattern := nth_opt (history s) newIndex \<rparr>)
      else s)"

definition handleRedo :: "EditorState \<Rightarrow> EditorState" where
  "handleRedo s =
     (if historyIndex s < length (history s) - 1 then
        (let newIndex = historyIndex s + 1
         in s\<lparr> historyIndex := newIndex, pattern := nth_opt (history s) newIndex \<rparr>)
      else s)"

text \<open>
  \<open>onSelectPattern\<close> as \<open>App\<close> passes it to the pattern library: \<open>setPattern(pattern)\<close>
  on the state of \<open>App\<close>; the editor's history is not within its reach.
\<close>

definition onSelectPattern :: "string \<Rightarrow> EditorState \<Rightarrow> EditorState" where
  "onSelectPattern p s = s\<lparr> pattern := Some p \<rparr>"

text \<open>The invariant of the edit history.\<close>

definition historyInvariant :: "EditorState \<Rightarrow> bool" where
  "historyInvariant s =
     (historyIndex s < length (history s) \<and> nth_opt (history s) (historyIndex s) = pattern s)"

section \<open>Pattern library (the \<open>PatternLibrary\<close> component)\<close>

text \<open>
  A \<open>RegexPattern\<close>; the fields \<open>id\<close>, \<open>name\<close>, \<open>pattern\<close>, \<open>description\<close> and the optional
  \<open>category\<close> carry the prefix \<open>p\<close> here. \<open>FormData\<close> is the state of the dialog's form.
\<close>

record RegexPattern =
  pid :: string
  pname :: string
  ppattern :: string
  pdescription :: string
  pcategory :: "string option"

record FormData =
  fname :: string
  fpattern :: string
  fdescription :: string
  fcategory :: string

definition emptyForm :: FormData where
  "emptyForm = \<lparr> fname = [], fpattern = [], fdescription = [], fcategory = [] \<rparr>"

text \<open>
  The state of the component. \<open>storage\<close> is the item of \<open>localStorage\<close> under
  \<open>STORAGE_KEY\<close>, with \<open>JSON.stringify\<close> and \<open>JSON.parse\<close> left out: the stored list itself.
  \<open>alerts\<close> collects the messages shown by \<open>alert\<close>. \<open>mounted\<close> is false once a render has
  thrown: no error boundary catches it, React removes the tree, and no handler can run
  any more; the other fields then keep the values of the last render that was committed.
  The import path never looks at the elements it appends, so the element type \<open>'e\<close> of the
  user set is a parameter: the handlers that read fields work on \<open>RegexPattern\<close>, the
  import on any \<open>'e\<close>.
\<close>

record 'e LibraryState =
  userPatterns :: "'e list"
  storage :: "'e list option"
  isDialogOpen :: bool
  editingPattern :: "RegexPattern option"
  formData :: FormData
  alerts :: "string list"
  searchQuery :: string
  mounted :: bool

definition startsWith :: "string \<Rightarrow> string \<Rightarrow> bool" where
  "startsWith s p = (take (length p) s = p)"

subsection \<open>What a render reads of the patterns, and when it throws\<close>

text \<open>
  The elements of the user set as the running program sees them: JSON values. The model
  covers scalars, arrays, and objects whose fields hold scalars (numbers kept as
  integers). A well-typed \<open>RegexPattern\<close> is the object \<open>asObject\<close> gives.
\<close>

datatype scalar = JNull | JBool bool | JNumber int | JString string

datatype json = JScalar scalar | JArray "json list" | JObject "(string \<times> scalar) list"

text \<open>
  The property read \<open>e.k\<close> for \<open>k\<close> one of \<open>id\<close>, \<open>name\<close>, \<open>pattern\<close>, \<open>description\<close>,
  \<open>category\<close>, on an element that is not \<open>null\<close>: \<open>None\<close> is \<open>undefined\<close>. Only an object
  has such a property; of a key that \<open>JSON.parse\<close> met twice it keeps the last value.
\<close>

definition getProp :: "json \<Rightarrow> string \<Rightarrow> scalar option" where
  "getProp e k = (case e of JObject fs \<Rightarrow> map_of (rev fs) k | _ \<Rightarrow> None)"

definition asObject :: "RegexPattern \<Rightarrow> json" where
  "asObject p =
     JObject ([(''id'', JString (pid p)), (''name'', JString (pname p)),
               (''pattern'', JString (ppattern p)), (''description'', JString (pdescription p))]
              @ (case pcategory p of None \<Rightarrow> [] | Some c \<Rightarrow> [(''category'', JString c)]))"

text \<open>\<open>String.prototype.includes\<close>: the needle occurs as a contiguous part.\<close>

fun str_contains :: "string \<Rightarrow> string \<Rightarrow> bool" where
  "str_contains [] q = (q = [])"
| "str_contains (c # s) q = (take (length q) (c # s) = q \<or> str_contains s q)"

text \<open>
  \<open>v.toLowerCase().includes(query)\<close> for a property value \<open>v\<close>: it throws (\<open>None\<close>) unless
  \<open>v\<close> is a string. \<open>toLowerCase\<close> is the host's and a parameter, \<open>lower\<close>.
\<close>

definition lowerIncludes :: "(string \<Rightarrow> string) \<Rightarrow> string \<Rightarrow> scalar option \<Rightarrow> bool option" where
  "lowerIncludes lower query v =
     (case v of Some (JString t) \<Rightarrow> Some (str_contains (lower t) query) | _ \<Rightarrow> None)"

text \<open>
  The callback of \<open>allPatterns.filter\<close> in \<open>filteredPatterns\<close>: the \<open>||\<close> chain over name,
  description, pattern and \<open>category?.\<close>, left to right. Reading a property of \<open>null\<close>
  throws; the optional chain gives \<open>undefined\<close> for a category that is \<open>undefined\<close> or
  \<open>null\<close>.
\<close>

definition matchesQuery :: "(string \<Rightarrow> string) \<Rightarrow> string \<Rightarrow> json \<Rightarrow> bool option" where
  "matchesQuery lower query e =
     (if e = JScalar JNull then None
      else
        (case lowerIncludes lower query (getProp e ''name'') of
           None \<Rightarrow> None
         | Some True \<Rightarrow> Some True
         | Some False \<Rightarrow>
             (case lowerIncludes lower query (getProp e ''description'') of
                None \<Rightarrow> None
              | Some True \<Rightarrow> Some True
              | Some False \<Rightarrow>
                  (case lowerIncludes lower query (getProp e ''pattern'') of
                     None \<Rightarrow> None
                   | Some True \<Rightarrow> Some True
                   | Some False \<Rightarrow>
                       (case getProp e ''category'' of
                          None \<Rightarrow> Some False
                        | Some JNull \<Rightarrow> Some False
                        | Some (JString c) \<Rightarrow> Some (str_contains (lower c) query)
                        | Some _ \<Rightarrow> None)))))"

text \<open>
  Whether an element is in \<open>filteredPatterns\<close>: all are when \<open>searchQuery\<close> is empty,
  otherwise the filter decides with \<open>query = searchQuery.toLowerCase()\<close>.
\<close>

definition listed :: "(string \<Rightarrow> string) \<Rightarrow> string \<Rightarrow> json \<Rightarrow> bool option" where
  "listed lower q e = (if q = [] then Some True else matchesQuery lower (lower q) e)"

text \<open>
  The names every object inherits from \<open>Object.prototype\<close> (ECMAScript, with its Annex B).
  \<open>grouped\<close> in \<open>patternsByCategory\<close> is an object literal, so \<open>grouped[category]\<close> with
  such a name is the inherited value: it is truthy, no array is stored, and
  \<open>grouped[category].push\<close> is not a function.
\<close>

definition inheritedProperty :: "string \<Rightarrow> bool" where
  "inheritedProperty c =
     (c \<in> set [''constructor'', ''hasOwnProperty'', ''isPrototypeOf'',
        ''propertyIsEnumerable'', ''toLocaleString'', ''toString'', ''valueOf'',
        ''__proto__'', ''__defineGetter__'', ''__defineSetter__'', ''__lookupGetter__'',
        ''__lookupSetter__''])"

text \<open>
  One round of \<open>filteredPatterns.forEach\<close> in \<open>patternsByCategory\<close> throws for \<open>null\<close> and
  for a category string that names an inherited property. Every other category is
  falsy (the key is \<open>Other\<close>) or a boolean or number, whose key is no such name.
\<close>

definition groupThrows :: "json \<Rightarrow> bool" where
  "groupThrows e =
     (e = JScalar JNull
      \<or> (case getProp e ''category'' of Some (JString c) \<Rightarrow> inheritedProperty c | _ \<Rightarrow> False))"

text \<open>\<open>pattern.id.startsWith("user-")\<close> in the returned JSX throws unless the id is a string.\<close>

definition idThrows :: "json \<Rightarrow> bool" where
  "idThrows e = (case getProp e ''id'' of Some (JString _) \<Rightarrow> False | _ \<Rightarrow> True)"

text \<open>
  A render of the component throws when the filter, the grouping or the JSX throws for
  one of \<open>allPatterns\<close>. \<open>view\<close> gives the JSON value of an element of the user set,
  \<open>patternsData\<close> are the built-in patterns of \<open>patterns.json\<close>.
\<close>

definition elementThrows :: "(string \<Rightarrow> string) \<Rightarrow> string \<Rightarrow> json \<Rightarrow> bool" where
  "elementThrows lower q e =
     (case listed lower q e of
        None \<Rightarrow> True
      | Some False \<Rightarrow> False
      | Some True \<Rightarrow> groupThrows e \<or> idThrows e)"

definition renderThrows ::
  "(string \<Rightarrow> string) \<Rightarrow> ('e \<Rightarrow> json) \<Rightarrow> 'e list \<Rightarrow> 'e list \<Rightarrow> string \<Rightarrow> bool" where
  "renderThrows lower view patternsData ups q =
     list_ex (elementThrows lower q) (map view (patternsData @ ups))"

subsection \<open>The handlers\<close>

text \<open>
  The render that follows an update of the user set. \<open>s\<close> is the state of the last
  committed render, \<open>s'\<close> the updated state, \<open>throws\<close> says whether the render of a user
  set under a search query throws. When it throws the tree is removed and nothing is
  written; otherwise the render is committed and the effect on \<open>[userPatterns]\<close> writes
  the new list to \<open>localStorage\<close> (every updater builds a new array).
\<close>

definition rerender ::
  "('e list \<Rightarrow> string \<Rightarrow> bool) \<Rightarrow> 'e LibraryState \<Rightarrow> 'e LibraryState \<Rightarrow> 'e LibraryState" where
  "rerender throws s s' =
     (if throws (userPatterns s') (searchQuery s') then s\<lparr> mounted := False \<rparr>
      else s'\<lparr> storage := Some (userPatterns s') \<rparr>)"

text \<open>The decimal digits of \<open>Date.now()\<close>, as the template literal renders them.\<close>

fun showNat :: "nat \<Rightarrow> string" where
  "showNat n =
     (if n < 10 then [char_of (48 + n)]
      else showNat (n div 10) @ [char_of (48 + n mod 10)])"

declare showNat.simps [simp del]

text \<open>What an update with the fields \<open>f\<close> makes of an entry, and the entry a create makes.\<close>

definition withFields :: "FormData \<Rightarrow> RegexPattern \<Rightarrow> RegexPattern" where
  "withFields f p =
     p\<lparr> pname := fname f, ppattern := fpattern f, pdescription := fdescription f,
       pcategory := Some (if fcategory f = [] then ''Custom'' else fcategory f) \<rparr>"

definition newPattern :: "FormData \<Rightarrow> nat \<Rightarrow> RegexPattern" where
  "newPattern f now =
     \<lparr> pid = ''user-'' @ showNat now, pname = fname f, ppattern = fpattern f,
       pdescription = fdescription f,
       pcategory = Some (if fcategory f = [] then ''Custom'' else fcategory f) \<rparr>"

definition handleSavePattern ::
  "(RegexPattern list \<Rightarrow> string \<Rightarrow> bool) \<Rightarrow> nat \<Rightarrow> RegexPattern LibraryState
     \<Rightarrow> RegexPattern LibraryState" where
  "handleSavePattern throws now s =
     (if fname (formData s) = [] \<or> fpattern (formData s) = [] then s
      else
        rerender throws s
          (s\<lparr> userPatterns :=
                (case editingPattern s of
                   Some e \<Rightarrow>
                     map (\<lambda>p. if pid p = pid e then withFields (formData s) p else p)
                       (userPatterns s)
                 | None \<Rightarrow> userPatterns s @ [newPattern (formData s) now]),
              formData := emptyForm, editingPattern := None, isDialogOpen := False \<rparr>))"

definition handleEditPattern ::
  "RegexPattern \<Rightarrow> RegexPattern LibraryState \<Rightarrow> RegexPattern LibraryState" where
  "handleEditPattern p s =
     (if \<not> startsWith (pid p) ''user-'' then s
      else
        s\<lparr> editingPattern := Some p,
           formData :=
             \<lparr> fname = pname p, fpattern = ppattern p, fdescription = pdescription p,
               fcategory = (case pcategory p of None \<Rightarrow> [] | Some c \<Rightarrow> c) \<rparr>,
           isDialogOpen := True \<rparr>)"

definition handleDeletePattern ::
  "(RegexPattern list \<Rightarrow> string \<Rightarrow> bool) \<Rightarrow> string \<Rightarrow> RegexPattern LibraryState
     \<Rightarrow> RegexPattern LibraryState" where
  "handleDeletePattern throws patternId s =
     (if \<not> startsWith patternId ''user-'' then s
      else
        rerender throws s
          (s\<lparr> userPatterns := filter (\<lambda>p. pid p \<noteq> patternId) (userPatterns s) \<rparr>))"

text \<open>What \<open>handleExportPatterns\<close> serialises into the downloaded file.\<close>

definition handleExportPatterns :: "'e LibraryState \<Rightarrow> 'e list" where
  "handleExportPatterns s = userPatterns s"

text \<open>\<open>allPatterns\<close>: the built-in patterns of \<open>patterns.json\<close>, then the user's.\<close>

definition allPatterns :: "'e list \<Rightarrow> 'e LibraryState \<Rightarrow> 'e list" where
  "allPatterns patternsData s = patternsData @ userPatterns s"

text \<open>
  What \<open>handleImportPatterns\<close> meets: no file selected, a text that \<open>JSON.parse\<close> rejects,
  a JSON value that is not an array, or an array with its elements.
\<close>

datatype 'e upload = NoFile | Unparseable | NotArray | Array "'e list"

definition handleImportPatterns ::
  "('e list \<Rightarrow> string \<Rightarrow> bool) \<Rightarrow> 'e upload \<Rightarrow> 'e LibraryState \<Rightarrow> 'e LibraryState" where
  "handleImportPatterns throws u s =
     (case u of
        NoFile \<Rightarrow> s
      | Unparseable \<Rightarrow>
          s\<lparr> alerts := alerts s @ [''Failed to import patterns. Please check the file format.''] \<rparr>
      | NotArray \<Rightarrow> s
      | Array imported \<Rightarrow>
          rerender throws s (s\<lparr> userPatterns := userPatterns s @ imported \<rparr>))"

text \<open>
  Typing in the search box: \<open>setSearchQuery\<close>, and a render with the new query. The user
  set is the same array, so nothing is written.
\<close>

definition handleSearch ::
  "('e list \<Rightarrow> string \<Rightarrow> bool) \<Rightarrow> string \<Rightarrow> 'e LibraryState \<Rightarrow> 'e LibraryState" where
  "handleSearch throws q s =
     (if throws (userPatterns s) q then s\<lparr> mounted := False \<rparr> else s\<lparr> searchQuery := q \<rparr>)"

subsection \<open>JSON payloads\<close>

text \<open>The upload a parsed file amounts to; \<open>None\<close> is a text that does not parse.\<close>

definition parsedUpload :: "json option \<Rightarrow> json upload" where
  "parsedUpload parsed =
     (case parsed of
        None \<Rightarrow> Unparseable
      | Some (JArray xs) \<Rightarrow> Array xs
      | Some _ \<Rightarrow> NotArray)"

text \<open>
  The payloads the specification calls well-formed: a sequence of records shaped like a
  \<open>PatternEntry\<close>, with string fields \<open>id\<close>, \<open>name\<close>, \<open>pattern\<close>, \<open>description\<close> and, when
  present, a string \<open>category\<close>.
\<close>

definition stringField :: "json \<Rightarrow> string \<Rightarrow> bool" where
  "stringField e k = (case getProp e k of Some (JString _) \<Rightarrow> True | _ \<Rightarrow> False)"

definition optionalStringField :: "json \<Rightarrow> string \<Rightarrow> bool" where
  "optionalStringField e k =
     (case getProp e k of None \<Rightarrow> True | Some (JString _) \<Rightarrow> True | _ \<Rightarrow> False)"

definition patternShaped :: "json \<Rightarrow> bool" where
  "patternShaped e =
     (case e of
        JObject fs \<Rightarrow>
          stringField e ''id'' \<and> stringField e ''name'' \<and> stringField e ''pattern''
          \<and> stringField e ''description'' \<and> optionalStringField e ''category''
      | _ \<Rightarrow> False)"

definition wellFormedPayload :: "json option \<Rightarrow> bool" where
  "wellFormedPayload parsed =
     (case parsed of Some (JArray xs) \<Rightarrow> list_all patternShaped xs | _ \<Rightarrow> False)"

subsection \<open>The store's operations as sequences of events\<close>

text \<open>
  The events of the component. The form and its Save button exist only while the dialog
  is open, and nothing can be clicked once the tree is removed. \<open>AddClick\<close> is the button
  that opens the dialog for a new pattern.
\<close>

datatype libEvent =
  EditClick RegexPattern | DeleteClick string | AddClick | FormInput FormData
  | SaveClick nat | CancelClick | ImportFile "RegexPattern upload" | SearchInput string

definition libStep ::
  "(RegexPattern list \<Rightarrow> string \<Rightarrow> bool) \<Rightarrow> RegexPattern LibraryState \<Rightarrow> libEvent
     \<Rightarrow> RegexPattern LibraryState" where
  "libStep throws s ev =
     (if \<not> mounted s then s
      else
        (case ev of
           EditClick p \<Rightarrow> handleEditPattern p s
         | DeleteClick i \<Rightarrow> handleDeletePattern throws i s
         | AddClick \<Rightarrow> s\<lparr> editingPattern := None, formData := emptyForm, isDialogOpen := True \<rparr>
         | FormInput f \<Rightarrow> (if isDialogOpen s then s\<lparr> formData := f \<rparr> else s)
         | SaveClick now \<Rightarrow> (if isDialogOpen s then handleSavePattern throws now s else s)
         | CancelClick \<Rightarrow> s\<lparr> isDialogOpen := False \<rparr>
         | ImportFile u \<Rightarrow> handleImportPatterns throws u s
         | SearchInput q \<Rightarrow> handleSearch throws q s))"

text \<open>
  \<open>create\<close>, \<open>update\<close> and \<open>delete\<close> of the store: the button, the form filled with the
  fields, Save. \<open>now\<close> is the reading of \<open>Date.now()\<close> at Save.
\<close>

definition create ::
  "(RegexPattern list \<Rightarrow> string \<Rightarrow> bool) \<Rightarrow> FormData \<Rightarrow> nat \<Rightarrow> RegexPattern LibraryState
     \<Rightarrow> RegexPattern LibraryState" where
  "create throws f now s = foldl (libStep throws) s [AddClick, FormInput f, SaveClick now]"

definition update ::
  "(RegexPattern list \<Rightarrow> string \<Rightarrow> bool) \<Rightarrow> RegexPattern \<Rightarrow> FormData \<Rightarrow> nat
     \<Rightarrow> RegexPattern LibraryState \<Rightarrow> RegexPattern LibraryState" where
  "update throws p f now s =
     foldl (libStep throws) s [EditClick p, FormInput f, SaveClick now]"

definition delete ::
  "(RegexPattern list \<Rightarrow> string \<Rightarrow> bool) \<Rightarrow> string \<Rightarrow> RegexPattern LibraryState
     \<Rightarrow> RegexPattern LibraryState" where
  "delete throws i s = libStep throws s (DeleteClick i)"

text \<open>
  The states the component is in between events: the pattern under edit, if any, has
  passed the check of \<open>handleEditPattern\<close>, and the stored copy is the user set.
\<close>

definition libraryInvariant :: "RegexPattern LibraryState \<Rightarrow> bool" where
  "libraryInvariant s =
     ((case editingPattern s of None \<Rightarrow> True | Some e \<Rightarrow> startsWith (pid e) ''user-'')
      \<and> storage s = Some (userPatterns s))"

text \<open>
  Sample data: a mounted state holding a given user set (dialog closed, no search, stored
  copy in step), an entry made by the create path, an entry whose id lacks the marker, a
  form, an entry as a JSON object, and an object that has an id and nothing else.
\<close>

definition libraryWith :: "'e list \<Rightarrow> 'e LibraryState" where
  "libraryWith xs =
     \<lparr> userPatterns = xs, storage = Some xs, isDialogOpen = False, editingPattern = None,
       formData = emptyForm, alerts = [], searchQuery = [], mounted = True \<rparr>"

definition userEntry :: RegexPattern where
  "userEntry =
     \<lparr> pid = ''user-1700000000000'', pname = ''Digits'', ppattern = ''[0-9]+'',
       pdescription = ''One or more digits'', pcategory = Some ''Custom'' \<rparr>"

definition foreignEntry :: RegexPattern where
  "foreignEntry =
     \<lparr> pid = ''email'', pname = ''Email'', ppattern = ''.+@.+'',
       pdescription = ''An address'', pcategory = Some ''Validation'' \<rparr>"

definition wordForm :: FormData where
  "wordForm =
     \<lparr> fname = ''Word'', fpattern = ''[a-z]+'', fdescription = ''Letters'', fcategory = [] \<rparr>"

definition jsonEntry :: json where
  "jsonEntry = asObject userEntry"

definition idOnly :: json where
  "idOnly = JObject [(''id'', JString ''x'')]"

text \<open>\<open>toLowerCase\<close> on texts in ASCII, for the examples.\<close>

definition lowerAscii :: "string \<Rightarrow> string" where
  "lowerAscii =
     map (\<lambda>c. case map_of (zip ''ABCDEFGHIJKLMNOPQRSTUVWXYZ'' ''abcdefghijklmnopqrstuvwxyz'') c of
                Some d \<Rightarrow> d | None \<Rightarrow> c)"

section \<open>Properties of the flag codec\<close>

lemma flagsToString_filter:
  "flagsToString (parseFlags s) = filter (\<lambda>c. c \<in> set s) ''gimsuy''"
  by (simp add: flagsToString_def parseFlags_def str_includes_def)

text \<open>
  C2. Decoding an encoded flag set gives the flag set back. An encoding holds one letter
  per set flag and is a duplicate-free subsequence of \<open>gimsuy\<close>. The encoding of a decoded
  string keeps, of the six letters in this order, exactly those that occur in the string:
  it depends only on which characters occur, not on their order or number.
\<close>

theorem flag_codec_roundtrip:
  "parseFlags (flagsToString f) = f
   \<and> subseq (flagsToString f) ''gimsuy''
   \<and> distinct (flagsToString f)
   \<and> length (flagsToString f)
       = length (filter id [global f, ignoreCase f, multiline f, dotAll f, unicode f, sticky f])
   \<and> flagsToString (parseFlags s) = filter (\<lambda>c. c \<in> set s) ''gimsuy''"
proof -
  have 1: "parseFlags (flagsToString f) = f"
    by (cases f) (simp add: flagsToString_def parseFlags_def str_includes_def)
  have c: "flagsToString f = filter (\<lambda>c. c \<in> set (flagsToString f)) ''gimsuy''"
    using flagsToString_filter[of "flagsToString f"] by (simp only: 1)
  have 2: "subseq (flagsToString f) ''gimsuy''"
    by (subst c) (rule subseq_filter_left)
  have 3: "distinct (flagsToString f)"
    by (subst c) (rule distinct_filter, simp)
  have 4: "length (flagsToString f)
      = length (filter id [global f, ignoreCase f, multiline f, dotAll f, unicode f, sticky f])"
    by (simp add: flagsToString_def)
  have 5: "flagsToString (parseFlags s) = filter (\<lambda>c. c \<in> set s) ''gimsuy''"
    by (rule flagsToString_filter)
  from 1 2 3 4 5 show ?thesis by blast
qed

section \<open>Properties of the match engine\<close>

lemma globalLoop_terminates:
  assumes "progresses regex S"
  shows "\<exists>ms. globalLoop regex S li acc = Some ms"
proof (induction "Suc (length S) - li" arbitrary: li acc rule: less_induct)
  case less
  show ?case
  proof (cases "regex S li")
    case (Pair r li')
    show ?thesis
    proof (cases r)
      case None
      with Pair show ?thesis by (subst globalLoop.simps) simp
    next
      case (Some m)
      from assms Pair Some
      have b: "li \<le> length S" "li \<le> li'" "m0 m \<noteq> [] \<longrightarrow> li < li'"
        unfolding progresses_def by (auto dest!: spec[of _ li])
      let ?n = "if length (m0 m) = 0 then li' + 1 else li'"
      from b have "Suc (length S) - ?n < Suc (length S) - li" by auto
      from less[OF this]
      obtain ms where "globalLoop regex S ?n (acc @ [matchOf m]) = Some ms" by blast
      with Pair Some show ?thesis by (subst globalLoop.simps) simp
    qed
  qed
qed

lemma exec_xstar_progresses: "progresses (exec_xstar False) S"
  by (simp add: progresses_def exec_xstar_def inputIndex_def Let_def)

text \<open>Without the \<open>u\<close> flag the loop ends for \<open>x*\<close> on every text.\<close>

lemma xstar_terminates: "\<exists>ms. globalLoop (exec_xstar False) S 0 [] = Some ms"
  by (rule globalLoop_terminates[OF exec_xstar_progresses])

text \<open>After an empty match the next search starts one past what \<open>exec\<close> left in
  \<open>lastIndex\<close>.\<close>

lemma zero_length_advance:
  "regex S li = (Some m, li') \<Longrightarrow> m0 m = [] \<Longrightarrow>
   globalLoop regex S li acc = globalLoop regex S (li' + 1) (acc @ [matchOf m])"
  by (subst globalLoop.simps) simp

text \<open>\<open>x*\<close> with the global flag on \<open>abc\<close>: four empty matches, at 0, 1, 2 and 3.\<close>

lemma xstar_abc:
  "globalLoop (exec_xstar False) text_abc 0 []
     = Some [emptyMatchAt 0, emptyMatchAt 1, emptyMatchAt 2, emptyMatchAt 3]"
  by code_simp

lemma run_xstar_abc:
  "runEffect ctor_xstar t0 t1 ''x*'' flags_g text_abc st
     = Some (st\<lparr> isValid := True,
                matches := [emptyMatchAt 0, emptyMatchAt 1, emptyMatchAt 2, emptyMatchAt 3],
                executionTime := t1 - t0 \<rparr>, 2)"
proof -
  have "text_abc \<noteq> []" by (simp add: text_abc_def)
  then show ?thesis
    by (simp add: runEffect_def validateRegex_def ctor_xstar_def timerCallback_def
        flags_g_def flagsToString_def str_includes_def xstar_abc)
qed

text \<open>
  With the \<open>u\<close> flag, on the text U+1F600: every \<open>exec\<close> from \<open>lastIndex\<close> 0 or 1 returns
  the empty match at 0 and leaves \<open>lastIndex = 0\<close>, the increment makes it 1, and the
  loop is where it was. No run of the loop returns.
\<close>

lemma xstar_unicode_stuck:
  "l \<le> 1 \<Longrightarrow> exec_xstar True text_U1F600 l = (Some \<lparr> m0 = [], index = 0, captures = [] \<rparr>, 0)"
proof -
  assume "l \<le> 1"
  then have "l = 0 \<or> l = 1" by auto
  then show ?thesis
    by (auto simp: exec_xstar_def inputIndex_def isTrailSurrogate_def isLeadSurrogate_def
        text_U1F600_def)
qed

lemma xstar_unicode_never_returns:
  assumes "globalLoop regex S li acc = Some y"
  shows "\<not> (regex = exec_xstar True \<and> S = text_U1F600 \<and> li \<le> 1)"
proof (rule globalLoop.raw_induct
    [where P = "\<lambda>r T l a z. \<not> (r = exec_xstar True \<and> T = text_U1F600 \<and> l \<le> 1)",
      OF _ assms])
  fix loop :: "16 word regex \<Rightarrow> 16 word list \<Rightarrow> nat \<Rightarrow> 16 word PatternMatch list
      \<Rightarrow> 16 word PatternMatch list option"
    and r T l a z
  assume IH: "\<And>r T l a z. loop r T l a = Some z \<Longrightarrow>
      \<not> (r = exec_xstar True \<and> T = text_U1F600 \<and> l \<le> 1)"
    and step: "(case r T l of (None, x) \<Rightarrow> Some a
       | (Some m, x) \<Rightarrow> loop r T (if length (m0 m) = 0 then x + 1 else x) (a @ [matchOf m]))
      = Some z"
  show "\<not> (r = exec_xstar True \<and> T = text_U1F600 \<and> l \<le> 1)"
  proof
    assume a: "r = exec_xstar True \<and> T = text_U1F600 \<and> l \<le> 1"
    then have "r T l = (Some \<lparr> m0 = [], index = 0, captures = [] \<rparr>, 0)"
      by (simp add: xstar_unicode_stuck)
    with step
    have "loop r T 1 (a @ [matchOf \<lparr> m0 = [], index = 0, captures = [] \<rparr>]) = Some z"
      by simp
    from IH[OF this] a show False by simp
  qed
qed

lemma xstar_unicode_loop: "globalLoop (exec_xstar True) text_U1F600 0 [] = None"
  using xstar_unicode_never_returns[of "exec_xstar True" text_U1F600 0 "[]"]
  by (cases "globalLoop (exec_xstar True) text_U1F600 0 []") auto

text \<open>
  C1. The loop guards against a zero-length match by one increment of \<open>lastIndex\<close>. For
  the pattern \<open>x*\<close> with the flags \<open>g\<close> and \<open>u\<close> on the text U+1F600 this is no
  progress: the loop never returns, and neither does the run of the component's effect.
  (With the flag \<open>g\<close> alone the loop ends on every text, and on \<open>abc\<close> it yields the four
  empty matches: \<open>xstar_terminates\<close>, \<open>run_xstar_abc\<close>.)
\<close>

theorem global_loop_unicode_diverges:
  "globalLoop (exec_xstar True) text_U1F600 0 [] = None
   \<and> runEffect ctor_xstar t0 t1 ''x*'' flags_gu text_U1F600 st = None"
proof -
  have "text_U1F600 \<noteq> []" by (simp add: text_U1F600_def)
  then show ?thesis
    by (simp add: runEffect_def validateRegex_def ctor_xstar_def timerCallback_def
        flags_gu_def flags_g_def flagsToString_def str_includes_def xstar_unicode_loop)
qed

lemma short_circuit:
  "p = [] \<or> sampleText = [] \<Longrightarrow>
   runEffect ctor t0 t1 p fl sampleText st = Some (st\<lparr> matches := [], executionTime := 0 \<rparr>, 0)"
  by (simp add: runEffect_def)

lemma invalid_pattern_run:
  "runEffect ctor_xstar t0 t1 ''('' fl text_abc initialTestArea
     = Some (initialTestArea\<lparr> isValid := False \<rparr>, 1)"
  by (simp add: runEffect_def validateRegex_def ctor_xstar_def initialTestArea_def text_abc_def)

text \<open>
  C7. A run with an empty sample text empties the match list, zeroes the elapsed time and
  builds no regex, but leaves \<open>isValid\<close> as it was: after a run that found the pattern
  invalid, the flag is still false, whatever the new pattern is. Here the state is the
  one left by the pattern \<open>(\<close> on the text \<open>abc\<close> (\<open>invalid_pattern_run\<close>), and the next
  run has the pattern \<open>x*\<close>, which the constructor accepts.
\<close>

theorem short_circuit_keeps_invalid:
  "runEffect ctor_xstar t0 t1 ''x*'' fl [] (initialTestArea\<lparr> isValid := False \<rparr>)
     = Some (\<lparr> matches = [], executionTime = 0, isValid = False \<rparr>, 0)
   \<and> validateRegex ctor_xstar ''x*'' fl = None"
  by (simp add: runEffect_def initialTestArea_def validateRegex_def ctor_xstar_def)

section \<open>Properties of the highlight renderer\<close>

lemma substring_slice:
  "a \<le> b \<Longrightarrow> b \<le> length s \<Longrightarrow> substring s a b = take (b - a) (drop a s)"
  by (simp add: substring_def Let_def min_def max_def)

lemma take_slice: "a \<le> b \<Longrightarrow> take a s @ take (b - a) (drop a s) = take b s"
  by (metis le_add_diff_inverse take_add)

lemma renderStep_pair:
  "renderStep s (els, lo) m =
     (els @ (if startIndex m > lo then [Plain (substring s lo (startIndex m))] else [])
        @ [Highlight (matchText m)], endIndex m)"
  by (simp add: renderStep_def)

text \<open>The loop invariant: the spans emitted so far spell the text up to \<open>lastIndex\<close>.\<close>

lemma foldl_renderStep_concat:
  assumes "validMatches s lo ms" "lo \<le> length s"
    "concat (map spanText els) = take lo s"
    "foldl (renderStep s) (els, lo) ms = (els', lo')"
  shows "concat (map spanText els') = take lo' s \<and> lo' \<le> length s"
  using assms
proof (induction ms arbitrary: els lo)
  case Nil
  then show ?case by simp
next
  case (Cons m ms)
  let ?gap = "if startIndex m > lo then [Plain (substring s lo (startIndex m))] else []"
  let ?els = "els @ ?gap @ [Highlight (matchText m)]"
  from Cons.prems(1) have v: "lo \<le> startIndex m" "startIndex m \<le> endIndex m"
    "endIndex m \<le> length s" "matchText m = substring s (startIndex m) (endIndex m)"
    "validMatches s (endIndex m) ms" by simp_all
  have gap: "concat (map spanText ?gap) = take (startIndex m - lo) (drop lo s)"
    using v by (simp add: substring_slice)
  have "concat (map spanText ?els) = take lo s @ take (startIndex m - lo) (drop lo s)
      @ take (endIndex m - startIndex m) (drop (startIndex m) s)"
    using Cons.prems(3) gap v by (simp add: substring_slice)
  also have "\<dots> = take (endIndex m) s"
    using v by (simp add: take_slice flip: append_assoc)
  finally have c: "concat (map spanText ?els) = take (endIndex m) s" .
  from Cons.prems(4) have f: "foldl (renderStep s) (?els, endIndex m) ms = (els', lo')"
    by (simp only: foldl_Cons renderStep_pair)
  from Cons.IH[OF v(5) v(3) c f] show ?case .
qed

lemma validMatches_from_contract:
  "list_all (matchInvariant s) ms \<Longrightarrow> nonOverlapping ms \<Longrightarrow>
   (case ms of [] \<Rightarrow> True | m # _ \<Rightarrow> lo \<le> startIndex m) \<Longrightarrow> validMatches s lo ms"
proof (induction ms arbitrary: lo rule: nonOverlapping.induct)
  case 1
  then show ?case by simp
next
  case (2 m)
  then show ?case by (simp add: matchInvariant_def)
next
  case (3 m n ms)
  from "3.prems" have "validMatches s (endIndex m) (n # ms)"
    by (intro "3.IH") simp_all
  with "3.prems" show ?case by (simp add: matchInvariant_def)
qed

lemma render_reconstructs:
  assumes v: "validMatches sampleText 0 ms"
  shows "concat (map spanText (renderHighlightedText sampleText ms)) = sampleText"
proof (cases "sampleText = [] \<or> ms = []")
  case True
  then show ?thesis by (simp add: renderHighlightedText_def)
next
  case False
  obtain els lo where f: "foldl (renderStep sampleText) ([], 0) ms = (els, lo)"
    by (cases "foldl (renderStep sampleText) ([], 0) ms")
  from foldl_renderStep_concat[OF v _ _ f]
  have c: "concat (map spanText els) = take lo sampleText" "lo \<le> length sampleText"
    by simp_all
  have "concat (map spanText (renderHighlightedText sampleText ms))
      = take lo sampleText @ (if lo < length sampleText then substringFrom sampleText lo else [])"
    using False f c by (simp add: renderHighlightedText_def)
  also have "\<dots> = sampleText"
    using c(2) by (simp add: substringFrom_def substring_slice)
  finally show ?thesis .
qed

text \<open>
  C3, as the renderer is written. For a list of matches that is sorted by start index, in
  which each match ends where or before the next starts, and in which every match lies
  within the sample text and carries as its text the slice between its indices, the
  texts of the emitted spans, concatenated in order, are the sample text. With no match
  the output is the one plain span holding the whole text.
\<close>

theorem highlight_reconstruction:
  "(list_all (matchInvariant sampleText) ms \<and> sorted (map startIndex ms) \<and> nonOverlapping ms
      \<longrightarrow> concat (map spanText (renderHighlightedText sampleText ms)) = sampleText)
   \<and> renderHighlightedText sampleText [] = [Plain sampleText]"
proof (intro conjI impI)
  assume "list_all (matchInvariant sampleText) ms \<and> sorted (map startIndex ms)
    \<and> nonOverlapping ms"
  then have "validMatches sampleText 0 ms"
    by (intro validMatches_from_contract) (simp_all split: list.splits)
  then show "concat (map spanText (renderHighlightedText sampleText ms)) = sampleText"
    by (rule render_reconstructs)
next
  show "renderHighlightedText sampleText [] = [Plain sampleText]"
    by (simp add: renderHighlightedText_def)
qed

theorem highlight_reconstruction_witness:
  "list_all (matchInvariant ''a12b34'')
     [\<lparr> matchText = ''12'', startIndex = 1, endIndex = 3, groups = [] \<rparr>,
      \<lparr> matchText = ''34'', startIndex = 4, endIndex = 6, groups = [] \<rparr>]
   \<and> sorted (map startIndex
       [\<lparr> matchText = ''12'', startIndex = 1, endIndex = 3, groups = [] \<rparr>,
        \<lparr> matchText = ''34'', startIndex = 4, endIndex = 6, groups = [] \<rparr>])
   \<and> nonOverlapping
       [\<lparr> matchText = ''12'', startIndex = 1, endIndex = 3, groups = [] \<rparr>,
        \<lparr> matchText = ''34'', startIndex = 4, endIndex = 6, groups = [] \<rparr>]
   \<and> concat (map spanText (renderHighlightedText ''a12b34''
       [\<lparr> matchText = ''12'', startIndex = 1, endIndex = 3, groups = [] \<rparr>,
        \<lparr> matchText = ''34'', startIndex = 4, endIndex = 6, groups = [] \<rparr>])) = ''a12b34''
   \<and> renderHighlightedText ''a12b34''
       [\<lparr> matchText = ''12'', startIndex = 1, endIndex = 3, groups = [] \<rparr>,
        \<lparr> matchText = ''34'', startIndex = 4, endIndex = 6, groups = [] \<rparr>]
      = [Plain ''a'', Highlight ''12'', Plain ''b'', Highlight ''34'']"
  using highlight_reconstruction [of "''a12b34''"
      "[\<lparr> matchText = ''12'', startIndex = 1, endIndex = 3, groups = [] \<rparr>,
        \<lparr> matchText = ''34'', startIndex = 4, endIndex = 6, groups = [] \<rparr>]"]
  by (simp add: matchInvariant_def substring_def substringFrom_def renderHighlightedText_def
      renderStep_def)

text \<open>
  A match left over from an earlier text: \<open>b\<close> at 1 to 2, rendered on \<open>xyz\<close>. The list is
  sorted, nothing overlaps, the indices are within the text, and the spans spell \<open>xbz\<close>:
  the match span holds the text of the match, not the slice.
\<close>

theorem stale_match_breaks_reconstruction:
  "sorted (map startIndex [\<lparr> matchText = ''b'', startIndex = 1, endIndex = 2, groups = [] \<rparr>])
   \<and> nonOverlapping [\<lparr> matchText = ''b'', startIndex = 1, endIndex = 2, groups = [] \<rparr>]
   \<and> list_all (\<lambda>m. startIndex m \<le> endIndex m \<and> endIndex m \<le> length ''xyz'')
       [\<lparr> matchText = ''b'', startIndex = 1, endIndex = 2, groups = [] \<rparr>]
   \<and> concat (map spanText (renderHighlightedText ''xyz''
       [\<lparr> matchText = ''b'', startIndex = 1, endIndex = 2, groups = [] \<rparr>])) = ''xbz''
   \<and> ''xbz'' \<noteq> ''xyz''"
  by (simp add: renderHighlightedText_def renderStep_def substring_def substringFrom_def)

lemma highlights_append: "highlights (xs @ ys) = highlights xs @ highlights ys"
  by (induction xs rule: highlights.induct) simp_all

lemma foldl_renderStep_spans:
  assumes "list_all (\<lambda>m. startIndex m \<le> length s) ms"
    "Plain [] \<notin> set els"
    "foldl (renderStep s) (els, lo) ms = (els', lo')"
  shows "Plain [] \<notin> set els' \<and> highlights els' = highlights els @ map matchText ms"
  using assms
proof (induction ms arbitrary: els lo)
  case Nil
  then show ?case by simp
next
  case (Cons m ms)
  let ?gap = "if startIndex m > lo then [Plain (substring s lo (startIndex m))] else []"
  let ?els = "els @ ?gap @ [Highlight (matchText m)]"
  from Cons.prems(1) have b: "startIndex m \<le> length s"
    and rest: "list_all (\<lambda>m. startIndex m \<le> length s) ms" by simp_all
  have g: "Plain [] \<notin> set ?gap"
    using b by (auto simp: substring_def Let_def min_def max_def)
  with Cons.prems(2) have p: "Plain [] \<notin> set ?els" by auto
  from Cons.prems(3) have f: "foldl (renderStep s) (?els, endIndex m) ms = (els', lo')"
    by (simp only: foldl_Cons renderStep_pair)
  from Cons.IH[OF rest p f] show ?case by (simp add: highlights_append)
qed

text \<open>
  C9, as the renderer is written. For a non-empty text and matches that start within it,
  no plain span is empty; the match spans are the texts of the matches, one per match and
  in order, so the span of a zero-length match is empty. For the empty text the output
  is the one empty plain span.
\<close>

theorem plain_spans_nonempty:
  assumes "sampleText \<noteq> []"
    and "list_all (\<lambda>m. startIndex m \<le> length sampleText) ms"
  shows "Plain [] \<notin> set (renderHighlightedText sampleText ms)
    \<and> (ms \<noteq> [] \<longrightarrow> highlights (renderHighlightedText sampleText ms) = map matchText ms)
    \<and> renderHighlightedText [] ms = [Plain []]"
proof -
  obtain els lo where f: "foldl (renderStep sampleText) ([], 0) ms = (els, lo)"
    by (cases "foldl (renderStep sampleText) ([], 0) ms")
  from foldl_renderStep_spans[OF assms(2) _ f]
  have c: "Plain [] \<notin> set els" "highlights els = map matchText ms" by simp_all
  have 1: "Plain [] \<notin> set (renderHighlightedText sampleText ms)"
    using assms(1) f c
    by (auto simp: renderHighlightedText_def substringFrom_def substring_def Let_def
        min_def max_def)
  have 2: "ms \<noteq> [] \<longrightarrow> highlights (renderHighlightedText sampleText ms) = map matchText ms"
    using assms(1) f c by (auto simp: renderHighlightedText_def highlights_append)
  have 3: "renderHighlightedText [] ms = [Plain []]"
    by (simp add: renderHighlightedText_def)
  from 1 2 3 show ?thesis by blast
qed

theorem plain_spans_nonempty_witness:
  "''abc'' \<noteq> []
   \<and> list_all (\<lambda>m. startIndex m \<le> length ''abc'')
       [emptyMatchAt 0, emptyMatchAt 1, emptyMatchAt 2, emptyMatchAt 3]
   \<and> Plain [] \<notin> set (renderHighlightedText ''abc''
       [emptyMatchAt 0, emptyMatchAt 1, emptyMatchAt 2, emptyMatchAt 3])
   \<and> highlights (renderHighlightedText ''abc''
       [emptyMatchAt 0, emptyMatchAt 1, emptyMatchAt 2, emptyMatchAt 3]) = [[], [], [], []]"
  using plain_spans_nonempty [of "''abc''"
      "[emptyMatchAt 0, emptyMatchAt 1, emptyMatchAt 2, emptyMatchAt 3]"]
  by (simp add: emptyMatchAt_def)

text \<open>
  The rendering of \<open>abc\<close> with the four empty matches of \<open>x*\<close>: four of the seven spans
  are empty, though the text and the match list are not.
\<close>

theorem empty_match_span_emitted:
  "renderHighlightedText ''abc''
     [emptyMatchAt 0, emptyMatchAt 1, emptyMatchAt 2, emptyMatchAt 3]
   = [Highlight [], Plain ''a'', Highlight [], Plain ''b'', Highlight [], Plain ''c'',
      Highlight []]"
  by (simp add: renderHighlightedText_def renderStep_def substring_def substringFrom_def
      emptyMatchAt_def)

section \<open>Properties of the edit history\<close>

lemma historyInvariant_initial: "historyInvariant initialEditor"
  by (simp add: historyInvariant_def initialEditor_def nth_opt_def)

text \<open>Typing, inserting, undo and redo keep the invariant of the history.\<close>

lemma historyInvariant_handlePatternChange:
  "historyInvariant s \<Longrightarrow> historyInvariant (handlePatternChange v s)"
  by (auto simp: historyInvariant_def handlePatternChange_def nth_opt_def Let_def nth_append
      min_def)

lemma historyInvariant_handleUndo: "historyInvariant s \<Longrightarrow> historyInvariant (handleUndo s)"
  by (auto simp: historyInvariant_def handleUndo_def nth_opt_def Let_def)

lemma historyInvariant_handleRedo: "historyInvariant s \<Longrightarrow> historyInvariant (handleRedo s)"
  by (auto simp: historyInvariant_def handleRedo_def nth_opt_def Let_def)

lemma historyInvariant_handleInsert:
  "historyInvariant s \<Longrightarrow> historyInvariant (handleInsert t s)"
  using historyInvariant_handlePatternChange[of s]
  by (auto simp: handleInsert_def Let_def historyInvariant_def split: option.splits)

text \<open>
  C4. A value other than the entry at the cursor cuts the history after the cursor,
  appends the value and moves the cursor to the new last index. After \<open>a\<close>, \<open>b\<close>, undo,
  \<open>c\<close> from the initial state the history is the empty pattern, \<open>a\<close>, \<open>c\<close>; it holds no
  \<open>b\<close>, the cursor is on \<open>c\<close>, the last entry, and redo changes nothing.
\<close>

theorem history_truncate_on_diverge:
  "(nth_opt (history s) (historyIndex s) \<noteq> Some v \<longrightarrow>
      history (handlePatternChange v s) = take (historyIndex s + 1) (history s) @ [v]
      \<and> historyIndex (handlePatternChange v s) = length (history (handlePatternChange v s)) - 1
      \<and> pattern (handlePatternChange v s) = Some v)
   \<and> (let s4 = handlePatternChange ''c'' (handleUndo
                  (handlePatternChange ''b'' (handlePatternChange ''a'' initialEditor)))
      in history s4 = [[], ''a'', ''c''] \<and> ''b'' \<notin> set (history s4)
         \<and> historyIndex s4 = 2 \<and> pattern s4 = Some ''c'' \<and> handleRedo s4 = s4)"
proof (intro conjI impI)
  assume "nth_opt (history s) (historyIndex s) \<noteq> Some v"
  then show "history (handlePatternChange v s) = take (historyIndex s + 1) (history s) @ [v]"
    and "historyIndex (handlePatternChange v s) = length (history (handlePatternChange v s)) - 1"
    and "pattern (handlePatternChange v s) = Some v"
    by (simp_all add: handlePatternChange_def Let_def)
next
  show "let s4 = handlePatternChange ''c'' (handleUndo
                  (handlePatternChange ''b'' (handlePatternChange ''a'' initialEditor)))
      in history s4 = [[], ''a'', ''c''] \<and> ''b'' \<notin> set (history s4)
         \<and> historyIndex s4 = 2 \<and> pattern s4 = Some ''c'' \<and> handleRedo s4 = s4"
    by (simp add: handlePatternChange_def handleUndo_def handleRedo_def initialEditor_def
        nth_opt_def Let_def)
qed

theorem history_truncate_on_diverge_witness:
  "nth_opt
     (history (handleUndo (handlePatternChange ''b'' (handlePatternChange ''a'' initialEditor))))
     (historyIndex (handleUndo (handlePatternChange ''b'' (handlePatternChange ''a'' initialEditor))))
     = Some ''a''
   \<and> history (handleUndo (handlePatternChange ''b'' (handlePatternChange ''a'' initialEditor)))
     = [[], ''a'', ''b'']
   \<and> history (handlePatternChange ''c''
       (handleUndo (handlePatternChange ''b'' (handlePatternChange ''a'' initialEditor))))
     = [[], ''a'', ''c'']"
  using history_truncate_on_diverge
    [of "handleUndo (handlePatternChange ''b'' (handlePatternChange ''a'' initialEditor))" "''c''"]
  by (simp add: handlePatternChange_def handleUndo_def initialEditor_def nth_opt_def Let_def)

text \<open>
  C8. Selecting a pattern in the library sets the pattern of \<open>App\<close> and nothing else. From
  the initial state, which satisfies the invariant, the displayed pattern is then the
  selected one while the entry at the cursor is still the empty pattern: the cursor is
  within bounds, the invariant is broken. (The editor's own operations keep it, see the
  lemmas above.)
\<close>

theorem library_selection_bypasses_history:
  "historyInvariant initialEditor
   \<and> (let s = onSelectPattern ''[0-9]+'' initialEditor
      in pattern s = Some ''[0-9]+'' \<and> history s = [[]] \<and> historyIndex s = 0
         \<and> nth_opt (history s) (historyIndex s) = Some [] \<and> \<not> historyInvariant s)"
  by (simp add: historyInvariant_def onSelectPattern_def initialEditor_def nth_opt_def)

section \<open>Properties of the pattern library\<close>

subsection \<open>Renders of well-typed entries\<close>

lemma getProp_asObject:
  "getProp (asObject p) ''id'' = Some (JString (pid p))"
  "getProp (asObject p) ''name'' = Some (JString (pname p))"
  "getProp (asObject p) ''pattern'' = Some (JString (ppattern p))"
  "getProp (asObject p) ''description'' = Some (JString (pdescription p))"
  "getProp (asObject p) ''category'' = map_option JString (pcategory p)"
  by (simp_all add: getProp_def asObject_def split: option.splits)

lemma asObject_not_null: "asObject p \<noteq> JScalar JNull"
  by (simp add: asObject_def)

lemma listed_asObject: "\<exists>b. listed lower q (asObject p) = Some b"
  by (cases "pcategory p")
    (auto simp: listed_def matchesQuery_def lowerIncludes_def getProp_asObject
      asObject_not_null split: bool.splits)

text \<open>
  For a well-typed entry only the grouping can throw, and only for a category that names
  an inherited property.
\<close>

lemma elementThrows_asObject:
  "elementThrows lower q (asObject p) \<Longrightarrow> \<exists>c. pcategory p = Some c \<and> inheritedProperty c"
  using listed_asObject[of lower q p]
  by (cases "pcategory p")
    (auto simp: elementThrows_def groupThrows_def idThrows_def getProp_asObject
      asObject_not_null split: option.splits bool.splits)

lemma renderThrows_iff:
  "renderThrows lower view pd ups q
     = (list_ex (elementThrows lower q) (map view pd)
        \<or> list_ex (elementThrows lower q) (map view ups))"
  by (auto simp: renderThrows_def list_ex_iff)

lemma custom_not_inherited:
  "\<not> inheritedProperty (if fcategory f = [] then ''Custom'' else fcategory f)
     = (\<not> inheritedProperty (fcategory f))"
  by (simp add: inheritedProperty_def)

text \<open>
  An update with a category that names no inherited property does not make a render
  throw that did not throw before.
\<close>

lemma renderThrows_update:
  assumes "\<not> renderThrows lower asObject pd ups q" "\<not> inheritedProperty (fcategory f)"
  shows "\<not> renderThrows lower asObject pd
            (map (\<lambda>x. if pid x = i then withFields f x else x) ups) q"
proof -
  have "\<not> elementThrows lower q (asObject (if pid x = i then withFields f x else x))"
    if "x \<in> set ups" for x
  proof (cases "pid x = i")
    case True
    have "\<not> elementThrows lower q (asObject (withFields f x))"
      using elementThrows_asObject[of lower q "withFields f x"] assms(2)
      by (auto simp: withFields_def inheritedProperty_def split: if_splits)
    with True show ?thesis by simp
  next
    case False
    with that assms(1) show ?thesis by (auto simp: renderThrows_iff list_ex_iff)
  qed
  with assms(1) show ?thesis by (auto simp: renderThrows_iff list_ex_iff)
qed

lemma update_user:
  "mounted s \<Longrightarrow> startsWith (pid p) ''user-'' \<Longrightarrow> fname f \<noteq> [] \<Longrightarrow> fpattern f \<noteq> [] \<Longrightarrow>
   \<not> throws (map (\<lambda>q. if pid q = pid p then withFields f q else q) (userPatterns s))
        (searchQuery s) \<Longrightarrow>
   update throws p f now s =
     s\<lparr> userPatterns := map (\<lambda>q. if pid q = pid p then withFields f q else q) (userPatterns s),
        storage := Some (map (\<lambda>q. if pid q = pid p then withFields f q else q) (userPatterns s)),
        formData := emptyForm, editingPattern := None, isDialogOpen := False \<rparr>"
  by (simp add: update_def libStep_def handleEditPattern_def handleSavePattern_def
      rerender_def cong: if_cong)

lemma update_user_rejected:
  "startsWith (pid p) ''user-'' \<Longrightarrow> fname f = [] \<or> fpattern f = [] \<Longrightarrow>
   userPatterns (update throws p f now s) = userPatterns s
   \<and> storage (update throws p f now s) = storage s"
  by (auto simp add: update_def libStep_def handleEditPattern_def handleSavePattern_def)

text \<open>
  C5, as the store is written. In every state, editing or deleting an id without the
  marker \<open>user-\<close> changes nothing, and so does an update of such an id that starts with
  the dialog closed, whatever the fields. In a mounted state whose render does not throw,
  an update of an id with the marker, with a non-empty name and pattern and a category
  that names no inherited property, gives every user entry of that id the name, pattern
  and description of the fields and their category (\<open>Custom\<close> when that is empty), and
  stores the new user set. With an empty name or pattern an update leaves the user set
  and the stored copy as they were.
\<close>

theorem provenance_enforcement:
  "(\<not> startsWith (pid p) ''user-'' \<longrightarrow> handleEditPattern p s = s)
   \<and> (\<not> startsWith (pid p) ''user-'' \<and> \<not> isDialogOpen s \<longrightarrow> update throws p f now s = s)
   \<and> (\<not> startsWith i ''user-'' \<longrightarrow>
        handleDeletePattern throws i s = s \<and> delete throws i s = s)
   \<and> (mounted s \<and> \<not> renderThrows lower asObject patternsData (userPatterns s) (searchQuery s)
        \<and> startsWith (pid p) ''user-'' \<and> fname f \<noteq> [] \<and> fpattern f \<noteq> []
        \<and> \<not> inheritedProperty (fcategory f) \<longrightarrow>
          userPatterns (update (renderThrows lower asObject patternsData) p f now s)
            = map (\<lambda>q. if pid q = pid p then withFields f q else q) (userPatterns s)
          \<and> storage (update (renderThrows lower asObject patternsData) p f now s)
            = Some (userPatterns (update (renderThrows lower asObject patternsData) p f now s))
          \<and> mounted (update (renderThrows lower asObject patternsData) p f now s))
   \<and> (startsWith (pid p) ''user-'' \<and> (fname f = [] \<or> fpattern f = []) \<longrightarrow>
          userPatterns (update throws p f now s) = userPatterns s
          \<and> storage (update throws p f now s) = storage s)"
proof (intro conjI impI)
  assume "\<not> startsWith (pid p) ''user-''"
  then show "handleEditPattern p s = s" by (simp add: handleEditPattern_def)
next
  assume "\<not> startsWith (pid p) ''user-'' \<and> \<not> isDialogOpen s"
  then show "update throws p f now s = s"
    by (simp add: update_def libStep_def handleEditPattern_def)
next
  assume "\<not> startsWith i ''user-''"
  then show "handleDeletePattern throws i s = s" and "delete throws i s = s"
    by (simp_all add: delete_def libStep_def handleDeletePattern_def)
next
  assume a: "mounted s
    \<and> \<not> renderThrows lower asObject patternsData (userPatterns s) (searchQuery s)
    \<and> startsWith (pid p) ''user-'' \<and> fname f \<noteq> [] \<and> fpattern f \<noteq> []
    \<and> \<not> inheritedProperty (fcategory f)"
  then have r: "\<not> renderThrows lower asObject patternsData
      (map (\<lambda>q. if pid q = pid p then withFields f q else q) (userPatterns s)) (searchQuery s)"
    by (intro renderThrows_update) simp_all
  from a r show "userPatterns (update (renderThrows lower asObject patternsData) p f now s)
      = map (\<lambda>q. if pid q = pid p then withFields f q else q) (userPatterns s)"
    by (simp add: update_user)
  from a r show "storage (update (renderThrows lower asObject patternsData) p f now s)
      = Some (userPatterns (update (renderThrows lower asObject patternsData) p f now s))"
    by (simp add: update_user)
  from a r show "mounted (update (renderThrows lower asObject patternsData) p f now s)"
    by (simp add: update_user)
next
  assume a: "startsWith (pid p) ''user-'' \<and> (fname f = [] \<or> fpattern f = [])"
  then show "userPatterns (update throws p f now s) = userPatterns s"
    and "storage (update throws p f now s) = storage s"
    using update_user_rejected[of p f throws now s] by simp_all
qed

theorem provenance_enforcement_witness:
  "\<not> startsWith (pid foreignEntry) ''user-''
   \<and> \<not> isDialogOpen (libraryWith [userEntry, foreignEntry])
   \<and> update (renderThrows lowerAscii asObject []) foreignEntry wordForm 7
       (libraryWith [userEntry, foreignEntry]) = libraryWith [userEntry, foreignEntry]
   \<and> delete (renderThrows lowerAscii asObject []) ''email''
       (libraryWith [userEntry, foreignEntry]) = libraryWith [userEntry, foreignEntry]
   \<and> mounted (libraryWith [userEntry, foreignEntry])
   \<and> \<not> renderThrows lowerAscii asObject [] [userEntry, foreignEntry] []
   \<and> startsWith (pid userEntry) ''user-''
   \<and> \<not> inheritedProperty (fcategory wordForm)
   \<and> userPatterns (update (renderThrows lowerAscii asObject []) userEntry wordForm 7
        (libraryWith [userEntry, foreignEntry]))
       = [\<lparr> pid = ''user-1700000000000'', pname = ''Word'', ppattern = ''[a-z]+'',
            pdescription = ''Letters'', pcategory = Some ''Custom'' \<rparr>, foreignEntry]
   \<and> storage (update (renderThrows lowerAscii asObject []) userEntry wordForm 7
        (libraryWith [userEntry, foreignEntry]))
       = Some [\<lparr> pid = ''user-1700000000000'', pname = ''Word'', ppattern = ''[a-z]+'',
            pdescription = ''Letters'', pcategory = Some ''Custom'' \<rparr>, foreignEntry]"
  using provenance_enforcement
      [where s = "libraryWith [userEntry, foreignEntry]" and p = foreignEntry
        and i = "''email''" and f = wordForm and now = 7 and lower = lowerAscii
        and patternsData = "[]" and throws = "renderThrows lowerAscii asObject []"]
    provenance_enforcement
      [where s = "libraryWith [userEntry, foreignEntry]" and p = userEntry
        and i = "''email''" and f = wordForm and now = 7 and lower = lowerAscii
        and patternsData = "[]" and throws = "renderThrows lowerAscii asObject []"]
  by (simp add: libraryWith_def userEntry_def foreignEntry_def wordForm_def startsWith_def
      withFields_def inheritedProperty_def renderThrows_def elementThrows_def listed_def
      groupThrows_def idThrows_def getProp_def asObject_def)

text \<open>
  An update of an existing user entry with an empty name: the entry keeps its fields
  (its pattern is not the one of the form) and the stored copy is untouched.
\<close>

theorem update_with_empty_name_rejected:
  "startsWith (pid userEntry) ''user-''
   \<and> userEntry \<in> set (userPatterns (libraryWith [userEntry, foreignEntry]))
   \<and> userPatterns (update (renderThrows lowerAscii asObject []) userEntry
        (wordForm\<lparr> fname := [] \<rparr>) 7 (libraryWith [userEntry, foreignEntry]))
       = [userEntry, foreignEntry]
   \<and> storage (update (renderThrows lowerAscii asObject []) userEntry
        (wordForm\<lparr> fname := [] \<rparr>) 7 (libraryWith [userEntry, foreignEntry]))
       = Some [userEntry, foreignEntry]
   \<and> ppattern userEntry \<noteq> fpattern (wordForm\<lparr> fname := [] \<rparr>)"
  by (simp add: update_def libStep_def handleEditPattern_def handleSavePattern_def
      libraryWith_def userEntry_def foreignEntry_def wordForm_def startsWith_def)

text \<open>
  A category that names an inherited property: the render after the create throws in
  \<open>patternsByCategory\<close>, the tree is removed and the new entry is not stored.
\<close>

lemma create_with_inherited_category_unmounts:
  "\<not> mounted (create (renderThrows lower asObject patternsData)
       (wordForm\<lparr> fcategory := ''constructor'' \<rparr>) 7 (libraryWith [userEntry]))
   \<and> storage (create (renderThrows lower asObject patternsData)
       (wordForm\<lparr> fcategory := ''constructor'' \<rparr>) 7 (libraryWith [userEntry]))
     = Some [userEntry]"
proof -
  have "elementThrows lower []
      (asObject (newPattern (wordForm\<lparr> fcategory := ''constructor'' \<rparr>) 7))"
    by (simp add: elementThrows_def listed_def groupThrows_def getProp_asObject newPattern_def
        wordForm_def inheritedProperty_def)
  then show ?thesis
    by (simp add: create_def libStep_def handleSavePattern_def rerender_def libraryWith_def
        wordForm_def renderThrows_iff)
qed

subsection \<open>Import\<close>

text \<open>
  The user set after an import is the one before it, or the one before it followed by
  all elements of the array; in the first case the stored copy is untouched, in the
  second it is the new user set. Only a text that does not parse raises the alert.
\<close>

lemma import_whole_or_nothing:
  "(userPatterns (handleImportPatterns throws u s) = userPatterns s
      \<and> storage (handleImportPatterns throws u s) = storage s)
   \<or> (\<exists>xs. u = Array xs \<and> userPatterns (handleImportPatterns throws u s) = userPatterns s @ xs
        \<and> storage (handleImportPatterns throws u s) = Some (userPatterns s @ xs))"
  by (cases u) (simp_all add: handleImportPatterns_def rerender_def)

lemma import_alert:
  "alerts (handleImportPatterns throws u s)
     = alerts s @ (if u = Unparseable
                   then [''Failed to import patterns. Please check the file format.'']
                   else [])"
  by (cases u) (simp_all add: handleImportPatterns_def rerender_def)

text \<open>An array whose render throws, here one holding a number, removes the tree.\<close>

lemma import_number_unmounts:
  "handleImportPatterns (renderThrows lower id patternsData)
     (parsedUpload (Some (JArray [jsonEntry, JScalar (JNumber 42)]))) (libraryWith [jsonEntry])
   = (libraryWith [jsonEntry])\<lparr> mounted := False \<rparr>"
  by (simp add: handleImportPatterns_def parsedUpload_def rerender_def libraryWith_def
      renderThrows_iff elementThrows_def listed_def groupThrows_def idThrows_def getProp_def)

text \<open>
  C6. The payload is the array of one well-formed entry and the object \<open>{"id": "x"}\<close>,
  which has no name, pattern or description: it is not well-formed. With no search query
  and built-in patterns that render, the import appends both elements, the render is
  committed and the new user set is stored. Typing in the search box afterwards makes
  the filter throw on the element without a name, and the tree is removed.
\<close>

theorem import_stores_malformed_entry:
  assumes "\<not> renderThrows lower id patternsData [] []"
  shows "\<not> wellFormedPayload (Some (JArray [jsonEntry, idOnly]))
    \<and> handleImportPatterns (renderThrows lower id patternsData)
        (parsedUpload (Some (JArray [jsonEntry, idOnly]))) (libraryWith [jsonEntry])
      = libraryWith [jsonEntry, jsonEntry, idOnly]
    \<and> \<not> mounted (handleSearch (renderThrows lower id patternsData) ''a''
        (libraryWith [jsonEntry, jsonEntry, idOnly]))"
proof (intro conjI)
  show "\<not> wellFormedPayload (Some (JArray [jsonEntry, idOnly]))"
    by (simp add: wellFormedPayload_def patternShaped_def stringField_def getProp_def idOnly_def)
  have e: "\<not> elementThrows lower [] jsonEntry" "\<not> elementThrows lower [] idOnly"
    by (simp_all add: elementThrows_def listed_def groupThrows_def idThrows_def getProp_def
        jsonEntry_def asObject_def userEntry_def idOnly_def inheritedProperty_def)
  with assms
  have "\<not> renderThrows lower id patternsData [jsonEntry, jsonEntry, idOnly] []"
    by (simp add: renderThrows_iff)
  then show "handleImportPatterns (renderThrows lower id patternsData)
        (parsedUpload (Some (JArray [jsonEntry, idOnly]))) (libraryWith [jsonEntry])
      = libraryWith [jsonEntry, jsonEntry, idOnly]"
    by (simp add: handleImportPatterns_def parsedUpload_def rerender_def libraryWith_def)
  have "elementThrows lower ''a'' idOnly"
    by (simp add: elementThrows_def listed_def matchesQuery_def lowerIncludes_def getProp_def
        idOnly_def)
  then have "renderThrows lower id patternsData [jsonEntry, jsonEntry, idOnly] ''a''"
    by (simp add: renderThrows_iff)
  then show "\<not> mounted (handleSearch (renderThrows lower id patternsData) ''a''
        (libraryWith [jsonEntry, jsonEntry, idOnly]))"
    by (simp add: handleSearch_def libraryWith_def)
qed

theorem import_stores_malformed_entry_witness:
  "\<not> renderThrows lowerAscii id [asObject foreignEntry] [] []
   \<and> userPatterns (handleImportPatterns (renderThrows lowerAscii id [asObject foreignEntry])
        (parsedUpload (Some (JArray [jsonEntry, idOnly]))) (libraryWith [jsonEntry]))
      = [jsonEntry, jsonEntry, idOnly]
   \<and> storage (handleImportPatterns (renderThrows lowerAscii id [asObject foreignEntry])
        (parsedUpload (Some (JArray [jsonEntry, idOnly]))) (libraryWith [jsonEntry]))
      = Some [jsonEntry, jsonEntry, idOnly]"
proof -
  have h: "\<not> renderThrows lowerAscii id [asObject foreignEntry] [] []"
    by (simp add: renderThrows_def elementThrows_def listed_def groupThrows_def idThrows_def
        getProp_def asObject_def foreignEntry_def inheritedProperty_def)
  from import_stores_malformed_entry[OF h] h show ?thesis
    by (simp add: libraryWith_def)
qed

subsection \<open>Entries whose id lacks the marker\<close>

lemma kept_by_map: "x \<in> set xs \<Longrightarrow> g x = x \<Longrightarrow> x \<in> set (map g xs)"
  by force

lemma rerender_keeps:
  assumes "libraryInvariant s" "p \<in> set (userPatterns s)"
    "case editingPattern s' of None \<Rightarrow> True | Some e \<Rightarrow> startsWith (pid e) ''user-''"
    "p \<in> set (userPatterns s')"
  shows "libraryInvariant (rerender throws s s') \<and> p \<in> set (userPatterns (rerender throws s s'))"
  using assms by (simp add: rerender_def libraryInvariant_def)

text \<open>No event of the component removes or changes an entry whose id lacks the marker.\<close>

lemma libStep_keeps:
  assumes "libraryInvariant s" "p \<in> set (userPatterns s)" "\<not> startsWith (pid p) ''user-''"
  shows "libraryInvariant (libStep throws s ev) \<and> p \<in> set (userPatterns (libStep throws s ev))"
proof (cases "mounted s")
  case False
  with assms show ?thesis by (simp add: libStep_def)
next
  case True
  show ?thesis
  proof (cases ev)
    case (EditClick q)
    with assms True show ?thesis
      by (simp add: libStep_def libraryInvariant_def handleEditPattern_def)
  next
    case (DeleteClick i)
    show ?thesis
    proof (cases "startsWith i ''user-''")
      case False
      with assms True DeleteClick show ?thesis
        by (simp add: libStep_def handleDeletePattern_def)
    next
      case s: True
      with assms have "pid p \<noteq> i" by auto
      with assms s True DeleteClick show ?thesis
        by (simp add: libStep_def handleDeletePattern_def)
          (intro rerender_keeps, simp_all add: libraryInvariant_def)
    qed
  next
    case AddClick
    with assms True show ?thesis by (simp add: libStep_def libraryInvariant_def)
  next
    case (FormInput f)
    with assms True show ?thesis by (simp add: libStep_def libraryInvariant_def)
  next
    case (SaveClick now)
    show ?thesis
    proof (cases "isDialogOpen s \<and> fname (formData s) \<noteq> [] \<and> fpattern (formData s) \<noteq> []")
      case False
      with assms True SaveClick show ?thesis
        by (auto simp: libStep_def handleSavePattern_def)
    next
      case ok: True
      have "p \<in> set (case editingPattern s of
                 Some e \<Rightarrow>
                   map (\<lambda>x. if pid x = pid e then withFields (formData s) x else x)
                     (userPatterns s)
               | None \<Rightarrow> userPatterns s @ [newPattern (formData s) now])"
      proof (cases "editingPattern s")
        case None
        with assms show ?thesis by simp
      next
        case (Some e')
        with assms have "pid p \<noteq> pid e'" by (auto simp: libraryInvariant_def)
        with assms(2) Some show ?thesis by (simp only: option.case) (intro kept_by_map, simp_all)
      qed
      with assms ok True SaveClick show ?thesis
        by (simp add: libStep_def handleSavePattern_def) (intro rerender_keeps, simp_all)
    qed
  next
    case CancelClick
    with assms True show ?thesis by (simp add: libStep_def libraryInvariant_def)
  next
    case (ImportFile u)
    with assms True show ?thesis
      by (cases u)
        (simp_all add: libStep_def handleImportPatterns_def libraryInvariant_def rerender_def)
  next
    case (SearchInput q)
    with assms True show ?thesis
      by (simp add: libStep_def handleSearch_def libraryInvariant_def)
  qed
qed

lemma events_keep:
  assumes "libraryInvariant s" "p \<in> set (userPatterns s)" "\<not> startsWith (pid p) ''user-''"
  shows "libraryInvariant (foldl (libStep throws) s es)
    \<and> p \<in> set (userPatterns (foldl (libStep throws) s es))"
  using assms(1,2)
proof (induction es arbitrary: s)
  case Nil
  then show ?case by simp
next
  case (Cons e es)
  from libStep_keeps[OF Cons.prems assms(3), of throws e] Cons.IH show ?case by simp
qed

lemma create_adds:
  "userPatterns (create throws f now s) = userPatterns s
   \<or> userPatterns (create throws f now s) = userPatterns s @ [newPattern f now]"
  by (simp add: create_def libStep_def handleSavePattern_def rerender_def)

text \<open>
  C10. An entry made by the create path has an id that starts with \<open>user-\<close>. An import
  whose render is committed appends the elements of the array as they are, ids included.
  An entry of the user set whose id lacks the marker stays in the user set through every
  sequence of events of the component: it is listed, exported and stored, and editing or
  deleting it does nothing.
\<close>

theorem imported_entry_outlives_store:
  "(mounted s \<and> fname f \<noteq> [] \<and> fpattern f \<noteq> [] \<and> mounted (create throws f now s) \<longrightarrow>
      (\<exists>e. userPatterns (create throws f now s) = userPatterns s @ [e]
         \<and> startsWith (pid e) ''user-''))
   \<and> (\<forall>e \<in> set (userPatterns (create throws f now s)).
        e \<in> set (userPatterns s) \<or> startsWith (pid e) ''user-'')
   \<and> (\<not> throws (userPatterns s @ xs) (searchQuery s) \<longrightarrow>
        userPatterns (handleImportPatterns throws (Array xs) s) = userPatterns s @ xs)
   \<and> (libraryInvariant s \<and> p \<in> set (userPatterns s) \<and> \<not> startsWith (pid p) ''user-'' \<longrightarrow>
        p \<in> set (userPatterns (foldl (libStep throws) s es))
        \<and> p \<in> set (allPatterns patternsData (foldl (libStep throws) s es))
        \<and> p \<in> set (handleExportPatterns (foldl (libStep throws) s es))
        \<and> storage (foldl (libStep throws) s es)
            = Some (userPatterns (foldl (libStep throws) s es))
        \<and> handleEditPattern p (foldl (libStep throws) s es) = foldl (libStep throws) s es
        \<and> handleDeletePattern throws (pid p) (foldl (libStep throws) s es)
            = foldl (libStep throws) s es)"
proof (intro conjI impI ballI)
  assume a: "mounted s \<and> fname f \<noteq> [] \<and> fpattern f \<noteq> [] \<and> mounted (create throws f now s)"
  then have "userPatterns (create throws f now s) = userPatterns s @ [newPattern f now]"
    by (simp add: create_def libStep_def handleSavePattern_def rerender_def split: if_splits)
  moreover have "startsWith (pid (newPattern f now)) ''user-''"
    by (simp add: startsWith_def newPattern_def)
  ultimately show "\<exists>e. userPatterns (create throws f now s) = userPatterns s @ [e]
      \<and> startsWith (pid e) ''user-''"
    by blast
next
  fix e
  assume "e \<in> set (userPatterns (create throws f now s))"
  with create_adds[of throws f now s]
  have "e \<in> set (userPatterns s) \<or> e = newPattern f now" by auto
  moreover have "startsWith (pid (newPattern f now)) ''user-''"
    by (simp add: startsWith_def newPattern_def)
  ultimately show "e \<in> set (userPatterns s) \<or> startsWith (pid e) ''user-''" by auto
next
  assume "\<not> throws (userPatterns s @ xs) (searchQuery s)"
  then show "userPatterns (handleImportPatterns throws (Array xs) s) = userPatterns s @ xs"
    by (simp add: handleImportPatterns_def rerender_def)
next
  assume a: "libraryInvariant s \<and> p \<in> set (userPatterns s) \<and> \<not> startsWith (pid p) ''user-''"
  then have k: "libraryInvariant (foldl (libStep throws) s es)"
    "p \<in> set (userPatterns (foldl (libStep throws) s es))"
    using events_keep[of s p throws es] by simp_all
  from k(2) show "p \<in> set (userPatterns (foldl (libStep throws) s es))" .
  from k(2) show "p \<in> set (allPatterns patternsData (foldl (libStep throws) s es))"
    by (simp add: allPatterns_def)
  from k(2) show "p \<in> set (handleExportPatterns (foldl (libStep throws) s es))"
    by (simp add: handleExportPatterns_def)
  from k(1) show "storage (foldl (libStep throws) s es)
      = Some (userPatterns (foldl (libStep throws) s es))"
    by (simp add: libraryInvariant_def)
  from a show "handleEditPattern p (foldl (libStep throws) s es) = foldl (libStep throws) s es"
    by (simp add: handleEditPattern_def)
  from a show "handleDeletePattern throws (pid p) (foldl (libStep throws) s es)
      = foldl (libStep throws) s es"
    by (simp add: handleDeletePattern_def)
qed

theorem imported_entry_outlives_store_witness:
  "mounted (libraryWith [userEntry]) \<and> fname wordForm \<noteq> [] \<and> fpattern wordForm \<noteq> []
   \<and> mounted (create (renderThrows lowerAscii asObject []) wordForm 7 (libraryWith [userEntry]))
   \<and> \<not> renderThrows lowerAscii asObject [] (userPatterns (libraryWith [userEntry]) @ [foreignEntry])
        (searchQuery (libraryWith [userEntry]))
   \<and> libraryInvariant (handleImportPatterns (renderThrows lowerAscii asObject [])
        (Array [foreignEntry]) (libraryWith [userEntry]))
   \<and> foreignEntry \<in> set (userPatterns (handleImportPatterns
        (renderThrows lowerAscii asObject []) (Array [foreignEntry]) (libraryWith [userEntry])))
   \<and> \<not> startsWith (pid foreignEntry) ''user-''
   \<and> userPatterns (foldl (libStep (renderThrows lowerAscii asObject []))
        (handleImportPatterns (renderThrows lowerAscii asObject []) (Array [foreignEntry])
           (libraryWith [userEntry]))
        [EditClick foreignEntry, FormInput wordForm, SaveClick 7, DeleteClick ''email'',
         DeleteClick ''user-1700000000000'']) = [foreignEntry]"
  using imported_entry_outlives_store
      [where f = wordForm and now = 7 and throws = "renderThrows lowerAscii asObject []"
        and s = "libraryWith [userEntry]" and xs = "[foreignEntry]" and p = foreignEntry
        and patternsData = "[]" and es = "[]"]
    imported_entry_outlives_store
      [where f = wordForm and now = 7 and throws = "renderThrows lowerAscii asObject []"
        and s = "handleImportPatterns (renderThrows lowerAscii asObject [])
          (Array [foreignEntry]) (libraryWith [userEntry])"
        and xs = "[]" and p = foreignEntry and patternsData = "[]"
        and es = "[EditClick foreignEntry, FormInput wordForm, SaveClick 7,
          DeleteClick ''email'', DeleteClick ''user-1700000000000'']"]
  by (simp add: libraryInvariant_def handleImportPatterns_def rerender_def libStep_def
      create_def libraryWith_def handleEditPattern_def handleDeletePattern_def
      handleSavePattern_def userEntry_def foreignEntry_def wordForm_def startsWith_def
      newPattern_def emptyForm_def renderThrows_def elementThrows_def listed_def
      groupThrows_def idThrows_def getProp_def asObject_def inheritedProperty_def)

end
